theory Spec2Isabelle
  imports Main
begin

section \<open>Navigation configuration (sidebars.ts)\<close>

text \<open>
  The configuration is an object literal of type \<open>SidebarsConfig\<close>: a sidebar name
  mapped to an ordered array of items. An item is either a string (the path of a
  document) or an object \<open>{type: 'category', label, items}\<close> holding an ordered array
  of further items. The literal is embedded as it is written, key by key and string
  by string.
\<close>

datatype sidebar_item =
    Doc string
  | Category string "sidebar_item list"

definition tutorialSidebar :: "sidebar_item list" where
  "tutorialSidebar =
     [ Category ''Ariba DevOps''
         [ Doc ''Ariba DevOps/intro'',
           Doc ''Ariba DevOps/aks-terraform-deployment'',
           Doc ''Ariba DevOps/azure-functions-powershell'',
           Doc ''Ariba DevOps/bluetooth-ble-troubleshooting'',
           Doc ''Ariba DevOps/azure-devops-security-pipeline'' ],
       Category ''CN Org Structure''
         [ Doc ''CN Org Structure/organizational-structure'' ] ]"

definition sidebars :: "(string \<times> sidebar_item list) list" where
  "sidebars = [(''tutorialSidebar'', tutorialSidebar)]"

subsection \<open>Reading the tree\<close>

text \<open>
  The pre-order traversal lists the document paths of an item from left to right:
  a leaf yields its own path, a category yields the paths of its items in their
  order. A category has no document of its own in this configuration format, so it
  contributes nothing but its items.
\<close>

fun preorder :: "sidebar_item \<Rightarrow> string list" where
  "preorder (Doc p) = [p]"
| "preorder (Category l its) = concat (map preorder its)"

definition preorder_items :: "sidebar_item list \<Rightarrow> string list" where
  "preorder_items its = concat (map preorder its)"

fun is_category :: "sidebar_item \<Rightarrow> bool" where
  "is_category (Doc p) = False"
| "is_category (Category l its) = True"

fun label :: "sidebar_item \<Rightarrow> string" where
  "label (Doc p) = []"
| "label (Category l its) = l"

fun items :: "sidebar_item \<Rightarrow> sidebar_item list" where
  "items (Doc p) = []"
| "items (Category l its) = its"

text \<open>The leaves below the top-level categories that carry a given label.\<close>

definition leaves_under :: "string \<Rightarrow> sidebar_item list \<Rightarrow> string list" where
  "leaves_under l its =
     concat (map preorder (filter (\<lambda>c. is_category c \<and> label c = l) its))"

text \<open>The last segment of a path: what follows its last \<open>/\<close>.\<close>

definition slug :: "string \<Rightarrow> string" where
  "slug p = rev (takeWhile (\<lambda>c. c \<noteq> CHR ''/'') (rev p))"

text \<open>The segments of a path: the pieces between its \<open>/\<close> characters.\<close>

fun segments :: "string \<Rightarrow> string list" where
  "segments [] = [[]]"
| "segments (c # cs) =
     (if c = CHR ''/'' then [] # segments cs
      else (case segments cs of [] \<Rightarrow> [[c]] | s # ss \<Rightarrow> (c # s) # ss))"

text \<open>
  A path is referenced by an item when it is written at one of its leaves. This is
  stated as a relation on the syntax of the literal, apart from any traversal.
\<close>

inductive refers :: "sidebar_item \<Rightarrow> string \<Rightarrow> bool" where
  refers_doc: "refers (Doc p) p"
| refers_category: "i \<in> set its \<Longrightarrow> refers i p \<Longrightarrow> refers (Category l its) p"

definition refers_items :: "sidebar_item list \<Rightarrow> string \<Rightarrow> bool" where
  "refers_items its p = (\<exists>i \<in> set its. refers i p)"

text \<open>
  Every leaf together with the label of the category that immediately encloses it
  (\<open>None\<close> for a leaf written directly in the top-level array).
\<close>

fun enclosed_leaves :: "string option \<Rightarrow> sidebar_item \<Rightarrow> (string option \<times> string) list" where
  "enclosed_leaves par (Doc p) = [(par, p)]"
| "enclosed_leaves par (Category l its) = concat (map (enclosed_leaves (Some l)) its)"

definition enclosed_leaves_items :: "sidebar_item list \<Rightarrow> (string option \<times> string) list" where
  "enclosed_leaves_items its = concat (map (enclosed_leaves None) its)"

text \<open>
  Nesting depth: a leaf has depth one, a category one more than its deepest item.
\<close>

fun depth :: "sidebar_item \<Rightarrow> nat" where
  "depth (Doc p) = 1"
| "depth (Category l its) = Suc (foldr max (map depth its) 0)"

definition depth_items :: "sidebar_item list \<Rightarrow> nat" where
  "depth_items its = foldr max (map depth its) 0"

fun nest :: "nat \<Rightarrow> sidebar_item \<Rightarrow> sidebar_item" where
  "nest 0 t = t"
| "nest (Suc n) t = Category ''nested'' [nest n t]"

text \<open>
  The items below an item, at any depth. A category that referenced itself or one of
  its ancestors would occur in this list.
\<close>

fun descendants :: "sidebar_item \<Rightarrow> sidebar_item list" where
  "descendants (Doc p) = []"
| "descendants (Category l its) = its @ concat (map descendants its)"

definition nodes_items :: "sidebar_item list \<Rightarrow> sidebar_item list" where
  "nodes_items its = its @ concat (map descendants its)"

section \<open>Content documents (docs/)\<close>

text \<open>
  A content document is a markdown file: a front-matter block of key and value lines
  between two \<open>---\<close> lines, then the body. Every front-matter block of the repository
  holds the single key \<open>sidebar_position\<close> with an integer value. The body is prose
  that nothing here interprets; it is represented by its first line, the top-level
  heading. The path of a document is its file name below \<open>docs/\<close> without the
  extension.
\<close>

record document =
  path :: string
  front_matter :: "(string \<times> int) list"
  body_heading :: string

definition sidebar_position :: "document \<Rightarrow> int option" where
  "sidebar_position d = map_of (front_matter d) ''sidebar_position''"

text \<open>The three documents whose files are \<open>docs/Ariba DevOps/*.md\<close>.\<close>

definition doc_intro :: document where
  "doc_intro =
     \<lparr> path = ''Ariba DevOps/intro'',
       front_matter = [(''sidebar_position'', 1)],
       body_heading = ''# DevOps Documentation'' \<rparr>"

definition doc_aks :: document where
  "doc_aks =
     \<lparr> path = ''Ariba DevOps/aks-terraform-deployment'',
       front_matter = [(''sidebar_position'', 2)],
       body_heading = ''# Automated Deployment and Scaling of Azure Kubernetes Service (AKS) Using Terraform'' \<rparr>"

definition doc_functions :: document where
  "doc_functions =
     \<lparr> path = ''Ariba DevOps/azure-functions-powershell'',
       front_matter = [(''sidebar_position'', 3)],
       body_heading = ''# PowerShell Script to Retrieve Specific Functions from Azure Functions App'' \<rparr>"

text \<open>
  Modelled from the spec: the file names of three documents. Their front matter and
  bodies are among the sources, their file names are not. Each is given the path under
  which sidebars.ts and the traversal order of the specification (section 8) refer to
  the document with that heading: bluetooth-ble-troubleshooting for the Bluetooth
  troubleshooting guide, azure-devops-security-pipeline for the security pipeline
  guide, both in the directory Ariba DevOps, and organizational-structure in the
  directory CN Org Structure for the organizational structure page.
\<close>

definition doc_bluetooth :: document where
  "doc_bluetooth =
     \<lparr> path = ''Ariba DevOps/bluetooth-ble-troubleshooting'',
       front_matter = [(''sidebar_position'', 4)],
       body_heading = ''# Troubleshooting and Resolving Bluetooth Connectivity Issues for Client Chorus BLE'' \<rparr>"

definition doc_pipeline :: document where
  "doc_pipeline =
     \<lparr> path = ''Ariba DevOps/azure-devops-security-pipeline'',
       front_matter = [(''sidebar_position'', 5)],
       body_heading = ''# End-to-End Automated Security Pipeline for PR Validation in Azure DevOps'' \<rparr>"

definition doc_org :: document where
  "doc_org =
     \<lparr> path = ''CN Org Structure/organizational-structure'',
       front_matter = [(''sidebar_position'', 1)],
       body_heading = ''# CloudNexus Organizational Structure'' \<rparr>"

text \<open>The Content Store: the documents in the lexical order of their file names.\<close>

definition contentStore :: "document list" where
  "contentStore =
     [doc_aks, doc_pipeline, doc_functions, doc_bluetooth, doc_intro, doc_org]"

definition lookup_document :: "document list \<Rightarrow> string \<Rightarrow> document option" where
  "lookup_document store p = find (\<lambda>d. path d = p) store"

definition position_of :: "document list \<Rightarrow> string \<Rightarrow> int option" where
  "position_of store p =
     (case lookup_document store p of None \<Rightarrow> None | Some d \<Rightarrow> sidebar_position d)"

definition position_key :: "document \<Rightarrow> int" where
  "position_key d = (case sidebar_position d of None \<Rightarrow> 0 | Some n \<Rightarrow> n)"

definition in_directory :: "string \<Rightarrow> document \<Rightarrow> bool" where
  "in_directory dir d = (case segments (path d) of [] \<Rightarrow> False | s # ss \<Rightarrow> s = dir)"

definition remove_document :: "string \<Rightarrow> document list \<Rightarrow> document list" where
  "remove_document p store = filter (\<lambda>d. path d \<noteq> p) store"

subsection \<open>The build's checks\<close>

text \<open>
  Modelled from the spec: the checks of the build, which the external site generator
  performs and the repository does not contain. Section 7 of the specification: two
  documents that resolve to the same path fail the build; a path named by the
  navigation tree with no matching content file fails the build; a missing position is
  not fatal. A build that passes both checks yields the traversal order.
\<close>

datatype build_error = DuplicatePath string | BrokenReference string

fun first_duplicate :: "string list \<Rightarrow> string option" where
  "first_duplicate [] = None"
| "first_duplicate (p # ps) = (if p \<in> set ps then Some p else first_duplicate ps)"

definition build :: "document list \<Rightarrow> sidebar_item list \<Rightarrow> build_error + string list" where
  "build store tree =
     (case first_duplicate (map path store) of
        Some p \<Rightarrow> Inl (DuplicatePath p)
      | None \<Rightarrow>
          (case find (\<lambda>p. p \<notin> set (map path store)) (preorder_items tree) of
             Some p \<Rightarrow> Inl (BrokenReference p)
           | None \<Rightarrow> Inr (preorder_items tree)))"

section \<open>Landing page component (HomepageFeatures)\<close>

text \<open>
  The component file declares the type \<open>FeatureItem\<close>, the constant array
  \<open>FeatureList\<close>, the function component \<open>Feature\<close> and the exported function
  component \<open>HomepageFeatures\<close>. The element tree that the JSX denotes is embedded as
  a datatype: an element has a tag, an optional key, its attributes and its children.
  An \<open>Svg\<close> component is named by the module it is required from. A description is a
  fragment holding one text; JSX joins the lines of a text with single spaces.
\<close>

datatype node =
    Element string "nat option" "(string \<times> string) list" "node list"
  | Fragment "node list"
  | Text string

record FeatureItem =
  title :: string
  Svg :: string
  description :: node

definition FeatureList :: "FeatureItem list" where
  "FeatureList =
     [ \<lparr> title = ''Comprehensive Documentation'',
         Svg = ''@site/static/img/undraw_docusaurus_mountain.svg'',
         description = Fragment
           [Text ''Find everything you need in one place. Our documentation is designed to help you get started quickly and find answers to your questions.''] \<rparr>,
       \<lparr> title = ''Clear & Organized'',
         Svg = ''@site/static/img/undraw_docusaurus_tree.svg'',
         description = Fragment
           [Text ''Well-structured content that makes it easy to navigate and find what you're looking for. Focus on learning, not searching.''] \<rparr>,
       \<lparr> title = ''Modern & Fast'',
         Svg = ''@site/static/img/undraw_docusaurus_react.svg'',
         description = Fragment
           [Text ''Built with modern web technologies for a fast, responsive experience that works seamlessly across all devices.''] \<rparr> ]"

text \<open>\<open>clsx\<close> applied to one string returns that string.\<close>

definition clsx :: "string \<Rightarrow> string" where
  "clsx c = c"

text \<open>
  The class names of \<open>styles.module.css\<close> are not among the sources; the mapping
  \<open>styles\<close> from a name to its class is a parameter.
\<close>

definition Feature :: "(string \<Rightarrow> string) \<Rightarrow> FeatureItem \<Rightarrow> node" where
  "Feature styles props =
     Element ''div'' None [(''className'', clsx ''col col--4'')]
       [ Element ''div'' None [(''className'', ''text--center'')]
           [ Element (Svg props) None
               [(''className'', styles ''featureSvg''), (''role'', ''img'')] [] ],
         Element ''div'' None [(''className'', ''text--center padding-horiz--md'')]
           [ Element ''Heading'' None [(''as'', ''h3'')] [Text (title props)],
             Element ''p'' None [] [description props] ] ]"

fun with_key :: "nat \<Rightarrow> node \<Rightarrow> node" where
  "with_key k (Element t old a ns) = Element t (Some k) a ns"
| "with_key k (Fragment ns) = Fragment ns"
| "with_key k (Text s) = Text s"

text \<open>
  \<open>FeatureList.map((props, idx) => <Feature key={idx} {...props} />)\<close>, as a
  function of the array it is applied to.
\<close>

definition feature_row :: "(string \<Rightarrow> string) \<Rightarrow> FeatureItem list \<Rightarrow> node list" where
  "feature_row styles fl =
     map (\<lambda>(idx, props). with_key idx (Feature styles props)) (enumerate 0 fl)"

definition HomepageFeatures :: "(string \<Rightarrow> string) \<Rightarrow> node" where
  "HomepageFeatures styles =
     Element ''section'' None [(''className'', styles ''features'')]
       [ Element ''div'' None [(''className'', ''container'')]
           [ Element ''div'' None [(''className'', ''row'')]
               (feature_row styles FeatureList) ] ]"

subsection \<open>Reading a rendered tree\<close>

fun node_key :: "node \<Rightarrow> nat option" where
  "node_key (Element t k a ns) = k"
| "node_key (Fragment ns) = None"
| "node_key (Text s) = None"

text \<open>The feature blocks: the children of the row inside the container.\<close>

fun feature_blocks :: "node \<Rightarrow> node list" where
  "feature_blocks (Element t k a [Element t' k' a' [Element t'' k'' a'' blocks]]) = blocks"
| "feature_blocks n = []"

text \<open>The heading text of a block of the shape that \<open>Feature\<close> builds.\<close>

fun block_title :: "node \<Rightarrow> string option" where
  "block_title (Element t k a [svg, Element t' k' a' [Element t'' k'' a'' [Text s], p]]) = Some s"
| "block_title n = None"

fun attr_names :: "node \<Rightarrow> string list" where
  "attr_names (Element t k a ns) = map fst a @ concat (map attr_names ns)"
| "attr_names (Fragment ns) = concat (map attr_names ns)"
| "attr_names (Text s) = []"

section \<open>Helper facts\<close>

lemma refers_imp_preorder: "refers t p \<Longrightarrow> p \<in> set (preorder t)"
  by (induction rule: refers.induct) auto

lemma preorder_imp_refers: "p \<in> set (preorder t) \<Longrightarrow> refers t p"
proof (induction t)
  case (Doc q)
  then show ?case by (simp add: refers_doc)
next
  case (Category l its)
  then obtain i where "i \<in> set its" and "p \<in> set (preorder i)" by auto
  with Category.IH show ?case by (blast intro: refers_category)
qed

lemma refers_iff_preorder: "refers t p \<longleftrightarrow> p \<in> set (preorder t)"
  using refers_imp_preorder preorder_imp_refers by blast

lemma refers_items_iff: "refers_items its p \<longleftrightarrow> p \<in> set (preorder_items its)"
  by (auto simp: refers_items_def preorder_items_def refers_iff_preorder)

lemma count_list_distinct:
  "distinct xs \<Longrightarrow> count_list xs x = (if x \<in> set xs then 1 else 0)"
  by (induction xs) auto

lemma depth_nest: "depth (nest n t) = n + depth t"
  by (induction n) simp_all

lemma descendants_smaller: "d \<in> set (descendants t) \<Longrightarrow> size d < size t"
proof (induction t arbitrary: d)
  case (Doc p)
  then show ?case by simp
next
  case (Category l its)
  from Category.prems consider
      (child) "d \<in> set its"
    | (below) i where "i \<in> set its" and "d \<in> set (descendants i)"
    by auto
  then show ?case
  proof cases
    case child
    then have "size d \<le> size_list size its" by (simp add: size_list_estimation')
    then show ?thesis by simp
  next
    case below
    then have "size d < size i" by (rule Category.IH)
    moreover from below have "size i \<le> size_list size its"
      by (simp add: size_list_estimation')
    ultimately show ?thesis by simp
  qed
qed

lemma not_own_descendant: "t \<notin> set (descendants t)"
  using descendants_smaller [of t t] by auto

lemma first_duplicate_None: "first_duplicate ps = None \<longleftrightarrow> distinct ps"
  by (induction ps) auto

lemma store_paths:
  "map path contentStore =
     [ ''Ariba DevOps/aks-terraform-deployment'',
       ''Ariba DevOps/azure-devops-security-pipeline'',
       ''Ariba DevOps/azure-functions-powershell'',
       ''Ariba DevOps/bluetooth-ble-troubleshooting'',
       ''Ariba DevOps/intro'',
       ''CN Org Structure/organizational-structure'' ]"
  by (simp add: contentStore_def doc_aks_def doc_pipeline_def doc_functions_def
      doc_bluetooth_def doc_intro_def doc_org_def)

lemma sidebar_paths:
  "preorder_items tutorialSidebar =
     [ ''Ariba DevOps/intro'',
       ''Ariba DevOps/aks-terraform-deployment'',
       ''Ariba DevOps/azure-functions-powershell'',
       ''Ariba DevOps/bluetooth-ble-troubleshooting'',
       ''Ariba DevOps/azure-devops-security-pipeline'',
       ''CN Org Structure/organizational-structure'' ]"
  by (simp add: preorder_items_def tutorialSidebar_def)

lemma path_remove_document:
  "map path (remove_document p store) = filter (\<lambda>q. q \<noteq> p) (map path store)"
  by (simp add: remove_document_def filter_map comp_def)

text \<open>Whatever the store and the tree: a build without a referenced document fails.\<close>

lemma build_without_referenced_fails:
  assumes "p \<in> set (preorder_items tree)"
  shows "isl (build (remove_document p store) tree)"
proof (cases "first_duplicate (map path (remove_document p store))")
  case (Some q)
  then show ?thesis by (simp add: build_def)
next
  case None
  have "p \<notin> set (map path (remove_document p store))"
    by (simp add: path_remove_document)
  with assms have
    "find (\<lambda>q. q \<notin> set (map path (remove_document p store))) (preorder_items tree) \<noteq> None"
    by (auto simp: find_None_iff)
  then obtain q where
    "find (\<lambda>q. q \<notin> set (map path (remove_document p store))) (preorder_items tree) = Some q"
    by blast
  with None show ?thesis by (simp add: build_def)
qed

lemma feature_row_length: "length (feature_row styles fl) = length fl"
  by (simp add: feature_row_def)

lemma feature_row_nth:
  "i < length fl \<Longrightarrow> feature_row styles fl ! i = with_key i (Feature styles (fl ! i))"
  by (simp add: feature_row_def nth_enumerate_eq)

lemma feature_row_titles:
  "map block_title (feature_row styles fl) = map (\<lambda>f. Some (title f)) fl"
  by (rule nth_equalityI) (simp_all add: feature_row_length feature_row_nth Feature_def)

lemma feature_row_keys:
  "map node_key (feature_row styles fl) = map Some [0 ..< length fl]"
  by (rule nth_equalityI) (simp_all add: feature_row_length feature_row_nth Feature_def)

section \<open>Traversal order\<close>

text \<open>
  C1. The pre-order traversal of the tree declared in sidebars.ts yields exactly six
  document paths, in the order intro, aks-terraform-deployment,
  azure-functions-powershell, bluetooth-ble-troubleshooting,
  azure-devops-security-pipeline, organizational-structure; the first five come from
  the category labelled Ariba DevOps, the last from CN Org Structure.
\<close>

theorem traversal_order:
  "preorder_items tutorialSidebar =
     [ ''Ariba DevOps/intro'',
       ''Ariba DevOps/aks-terraform-deployment'',
       ''Ariba DevOps/azure-functions-powershell'',
       ''Ariba DevOps/bluetooth-ble-troubleshooting'',
       ''Ariba DevOps/azure-devops-security-pipeline'',
       ''CN Org Structure/organizational-structure'' ]
   \<and> map slug (preorder_items tutorialSidebar) =
     [ ''intro'', ''aks-terraform-deployment'', ''azure-functions-powershell'',
       ''bluetooth-ble-troubleshooting'', ''azure-devops-security-pipeline'',
       ''organizational-structure'' ]
   \<and> map (\<lambda>c. (label c, map slug (preorder c))) tutorialSidebar =
     [ (''Ariba DevOps'',
          [ ''intro'', ''aks-terraform-deployment'', ''azure-functions-powershell'',
            ''bluetooth-ble-troubleshooting'', ''azure-devops-security-pipeline'' ]),
       (''CN Org Structure'', [ ''organizational-structure'' ]) ]"
  by (simp add: preorder_items_def tutorialSidebar_def slug_def)

text \<open>
  C3. The pre-order traversal visits every document path referenced in the
  configuration exactly once: no path occurs at two positions of the traversal, and
  a path occurs in it once if it is referenced and not at all otherwise.
\<close>

theorem traversal_visits_once:
  "distinct (preorder_items tutorialSidebar)
   \<and> (\<forall>p. count_list (preorder_items tutorialSidebar) p =
            (if refers_items tutorialSidebar p then 1 else 0))"
proof -
  have d: "distinct (preorder_items tutorialSidebar)"
    by (simp add: preorder_items_def tutorialSidebar_def)
  show ?thesis
    using d by (simp add: count_list_distinct refers_items_iff)
qed

section \<open>Shape of the tree\<close>

text \<open>
  C6. The configuration holds a single top-level sequence, and that sequence consists
  of exactly two categories: Ariba DevOps with five items, then CN Org Structure with
  one item.
\<close>

theorem root_two_categories:
  "map fst sidebars = [''tutorialSidebar'']
   \<and> map_of sidebars ''tutorialSidebar'' = Some tutorialSidebar
   \<and> map (\<lambda>c. (is_category c, label c, length (items c))) tutorialSidebar =
       [(True, ''Ariba DevOps'', 5), (True, ''CN Org Structure'', 1)]"
  by (simp add: sidebars_def tutorialSidebar_def)

text \<open>
  C9. Every leaf path of the tree has exactly two segments, label and slug, joined by
  one \<open>/\<close>, and its first segment is the label of the category that immediately
  encloses the leaf.
\<close>

theorem leaf_prefix_is_label:
  "\<forall>(par, p) \<in> set (enclosed_leaves_items tutorialSidebar).
     \<exists>l. par = Some l \<and> segments p = [l, slug p] \<and> slug p \<noteq> []
         \<and> p = l @ ''/'' @ slug p"
  unfolding Ball_set
  by (simp add: enclosed_leaves_items_def tutorialSidebar_def slug_def)

theorem leaf_prefix_is_label_witness:
  "(Some ''Ariba DevOps'', ''Ariba DevOps/intro'') \<in> set (enclosed_leaves_items tutorialSidebar)
   \<and> segments ''Ariba DevOps/intro'' = [''Ariba DevOps'', slug ''Ariba DevOps/intro'']
   \<and> slug ''Ariba DevOps/intro'' = ''intro''"
proof -
  have m: "(Some ''Ariba DevOps'', ''Ariba DevOps/intro'')
             \<in> set (enclosed_leaves_items tutorialSidebar)"
    by (simp add: enclosed_leaves_items_def tutorialSidebar_def)
  from leaf_prefix_is_label m
  have "segments ''Ariba DevOps/intro'' = [''Ariba DevOps'', slug ''Ariba DevOps/intro'']"
    by blast
  with m show ?thesis by (simp add: slug_def)
qed

text \<open>
  C10. The tree has nesting depth exactly two: its top-level entries are categories
  whose items are all document leaves, none a nested category; the item type itself
  allows nesting of any depth.
\<close>

theorem depth_exactly_two:
  "depth_items tutorialSidebar = 2
   \<and> list_all is_category tutorialSidebar
   \<and> concat (map (\<lambda>c. filter is_category (items c)) tutorialSidebar) = []
   \<and> (\<forall>n p. depth (nest n (Doc p)) = Suc n)"
  by (simp add: depth_items_def tutorialSidebar_def depth_nest)

section \<open>Content Store\<close>

text \<open>
  C2. Every leaf of the navigation tree names a document of the Content Store, the
  tree is a finite tree in which no item lies below itself, the build of the store
  and the tree succeeds, and the build fails with a broken reference as soon as any
  one referenced document is removed from the store. The last holds for every store
  and every tree: a build without a document that the tree references fails.
\<close>

theorem references_resolve:
  "(\<forall>p \<in> set (preorder_items tutorialSidebar). \<exists>d \<in> set contentStore. path d = p)
   \<and> (\<forall>c \<in> set (nodes_items tutorialSidebar). c \<notin> set (descendants c))
   \<and> build contentStore tutorialSidebar = Inr (preorder_items tutorialSidebar)
   \<and> (\<forall>p \<in> set (preorder_items tutorialSidebar).
         build (remove_document p contentStore) tutorialSidebar = Inl (BrokenReference p))
   \<and> (\<forall>store tree. \<forall>p \<in> set (preorder_items tree).
         isl (build (remove_document p store) tree))"
proof -
  have "\<forall>p \<in> set (preorder_items tutorialSidebar). p \<in> set (map path contentStore)"
    unfolding store_paths sidebar_paths by simp
  then have a: "\<forall>p \<in> set (preorder_items tutorialSidebar). \<exists>d \<in> set contentStore. path d = p"
    by auto
  have b: "\<forall>c \<in> set (nodes_items tutorialSidebar). c \<notin> set (descendants c)"
    by (simp add: not_own_descendant)
  have c: "build contentStore tutorialSidebar = Inr (preorder_items tutorialSidebar)"
    unfolding build_def store_paths sidebar_paths by simp
  have d: "\<forall>p \<in> set (preorder_items tutorialSidebar).
         build (remove_document p contentStore) tutorialSidebar = Inl (BrokenReference p)"
    unfolding build_def path_remove_document store_paths sidebar_paths by simp
  have e: "\<forall>store tree. \<forall>p \<in> set (preorder_items tree).
         isl (build (remove_document p store) tree)"
    by (simp add: build_without_referenced_fails)
  from a b c d e show ?thesis by blast
qed

theorem references_resolve_witness:
  "''Ariba DevOps/intro'' \<in> set (preorder_items tutorialSidebar)
   \<and> (\<exists>d \<in> set contentStore. path d = ''Ariba DevOps/intro'')
   \<and> build (remove_document ''Ariba DevOps/intro'' contentStore) tutorialSidebar
       = Inl (BrokenReference ''Ariba DevOps/intro'')"
proof -
  have m: "''Ariba DevOps/intro'' \<in> set (preorder_items tutorialSidebar)"
    unfolding sidebar_paths by simp
  with references_resolve show ?thesis by blast
qed

text \<open>
  C4. The paths of the documents of the Content Store are pairwise different, and
  every document has a front-matter block and a body of its own.
\<close>

theorem paths_unique:
  "distinct (map path contentStore)
   \<and> length contentStore = 6
   \<and> list_all (\<lambda>d. front_matter d \<noteq> [] \<and> body_heading d \<noteq> []) contentStore
   \<and> distinct (map body_heading contentStore)"
proof -
  have "distinct (map path contentStore)"
    unfolding store_paths by simp
  moreover have "length contentStore = 6"
    by (simp add: contentStore_def)
  moreover have
    "list_all (\<lambda>d. front_matter d \<noteq> [] \<and> body_heading d \<noteq> []) contentStore"
    by (simp add: contentStore_def doc_aks_def doc_pipeline_def doc_functions_def
        doc_bluetooth_def doc_intro_def doc_org_def)
  moreover have "distinct (map body_heading contentStore)"
    by (simp add: contentStore_def doc_aks_def doc_pipeline_def doc_functions_def
        doc_bluetooth_def doc_intro_def doc_org_def)
  ultimately show ?thesis by blast
qed

text \<open>
  C8. Every document of the Content Store has a front-matter block with an integer
  \<open>sidebar_position\<close>. The leaves of the category Ariba DevOps have, in sidebar
  order, the positions 1 to 5, so that sorting the documents of that directory by
  ascending position gives the sidebar order.
\<close>

theorem positions_match_order:
  "list_all (\<lambda>d. sidebar_position d \<noteq> None) contentStore
   \<and> map (\<lambda>p. (slug p, position_of contentStore p))
         (leaves_under ''Ariba DevOps'' tutorialSidebar) =
       [ (''intro'', Some 1), (''aks-terraform-deployment'', Some 2),
         (''azure-functions-powershell'', Some 3),
         (''bluetooth-ble-troubleshooting'', Some 4),
         (''azure-devops-security-pipeline'', Some 5) ]
   \<and> map path (sort_key position_key (filter (in_directory ''Ariba DevOps'') contentStore))
       = leaves_under ''Ariba DevOps'' tutorialSidebar"
  by (simp add: contentStore_def doc_aks_def doc_pipeline_def doc_functions_def
      doc_bluetooth_def doc_intro_def doc_org_def sidebar_position_def position_of_def
      lookup_document_def position_key_def in_directory_def leaves_under_def
      tutorialSidebar_def slug_def)

section \<open>Landing page\<close>

text \<open>
  C5. HomepageFeatures renders one feature block per entry of FeatureList, in the
  order of the list: for any list, the row has as many blocks as the list has entries,
  block number i is the Feature block of entry number i with key i, and the block
  titles are the titles of the entries in order. The rendered tree is determined by
  the list (and the style sheet's class names) alone, and carries no attribute other
  than class names, a role and a heading level: no event handler, no state.
\<close>

theorem one_block_per_feature:
  "feature_blocks (HomepageFeatures styles) = feature_row styles FeatureList
   \<and> length (feature_row styles fl) = length fl
   \<and> (\<forall>i. i < length fl \<longrightarrow>
         feature_row styles fl ! i = with_key i (Feature styles (fl ! i)))
   \<and> map block_title (feature_row styles fl) = map (\<lambda>f. Some (title f)) fl
   \<and> map node_key (feature_row styles fl) = map Some [0 ..< length fl]
   \<and> length (feature_blocks (HomepageFeatures styles)) = 3
   \<and> map block_title (feature_blocks (HomepageFeatures styles)) =
       [Some ''Comprehensive Documentation'', Some ''Clear & Organized'',
        Some ''Modern & Fast'']
   \<and> set (attr_names (HomepageFeatures styles)) = {''className'', ''role'', ''as''}"
proof -
  have blocks: "feature_blocks (HomepageFeatures styles) = feature_row styles FeatureList"
    by (simp add: HomepageFeatures_def)
  have three: "length (feature_blocks (HomepageFeatures styles)) = 3"
    unfolding blocks feature_row_length by (simp add: FeatureList_def)
  have titles: "map block_title (feature_blocks (HomepageFeatures styles)) =
       [Some ''Comprehensive Documentation'', Some ''Clear & Organized'',
        Some ''Modern & Fast'']"
    unfolding blocks feature_row_titles by (simp add: FeatureList_def)
  have attrs: "set (attr_names (HomepageFeatures styles)) = {''className'', ''role'', ''as''}"
    by (simp add: HomepageFeatures_def feature_row_def FeatureList_def Feature_def
        enumerate_eq_zip upt_rec insert_commute)
  from blocks three titles attrs show ?thesis
    by (simp add: feature_row_length feature_row_nth feature_row_titles feature_row_keys)
qed

theorem one_block_per_feature_witness:
  "(1::nat) < length FeatureList
   \<and> feature_row (\<lambda>n. n) FeatureList ! 1 =
       with_key 1 (Feature (\<lambda>n. n) (FeatureList ! 1))
   \<and> block_title (feature_row (\<lambda>n. n) FeatureList ! 1) = Some ''Clear & Organized''"
proof -
  have len: "(1::nat) < length FeatureList"
    by (simp add: FeatureList_def)
  with one_block_per_feature [of "\<lambda>n. n" FeatureList]
  have nth: "feature_row (\<lambda>n. n) FeatureList ! 1 =
       with_key 1 (Feature (\<lambda>n. n) (FeatureList ! 1))"
    by blast
  have "block_title (with_key 1 (Feature (\<lambda>n. n) (FeatureList ! 1)))
          = Some ''Clear & Organized''"
    by (simp add: FeatureList_def Feature_def)
  with len nth show ?thesis by simp
qed

end
